theory Spec2Isabelle
  imports Main
begin

section \<open>Values of the host language\<close>

text \<open>
  The invocation arguments of a command handler and the errors it meets are untyped
  (\<^verbatim>\<open>any\<close>) in the source. They are modelled by a small universe of values with the
  host language's notion of truthiness, which the source relies on in
  \<^verbatim>\<open>args && args.from || 'keybinding'\<close> and \<^verbatim>\<open>if (descriptor.label)\<close>.
\<close>

datatype js_value =
    JUndefined
  | JNull
  | JBool bool
  | JNum int
  | JStr string
  | JObj "(string \<times> js_value) list"

fun truthy :: "js_value \<Rightarrow> bool" where
  "truthy JUndefined = False"
| "truthy JNull = False"
| "truthy (JBool b) = b"
| "truthy (JNum n) = (n \<noteq> 0)"
| "truthy (JStr s) = (s \<noteq> [])"
| "truthy (JObj fs) = True"

text \<open>
  Property access \<^verbatim>\<open>v.name\<close> on a truthy value: an object yields the stored value or
  \<^verbatim>\<open>undefined\<close>, a primitive yields \<^verbatim>\<open>undefined\<close>. The source reads a property of
  \<^verbatim>\<open>args\<close> only behind the guard \<^verbatim>\<open>args &&\<close>, so the access on \<^verbatim>\<open>undefined\<close> or
  \<^verbatim>\<open>null\<close> (a TypeError) is never evaluated.
\<close>

fun property :: "js_value \<Rightarrow> string \<Rightarrow> js_value" where
  "property (JObj fs) k = (case map_of fs k of Some v \<Rightarrow> v | None \<Rightarrow> JUndefined)"
| "property v k = JUndefined"

definition js_or :: "js_value \<Rightarrow> js_value \<Rightarrow> js_value" where
  "js_or a b = (if truthy a then a else b)"

text \<open>An optional string field (\<^verbatim>\<open>label?: string\<close>) is truthy when present and non-empty.\<close>

fun truthy_string :: "string option \<Rightarrow> bool" where
  "truthy_string None = False"
| "truthy_string (Some s) = (s \<noteq> [])"

fun string_or :: "string option \<Rightarrow> string \<Rightarrow> string" where
  \<comment> \<open>\<^verbatim>\<open>a || b\<close> for an optional string \<open>a\<close>\<close>
  "string_or None b = b"
| "string_or (Some s) b = (if s \<noteq> [] then s else b)"

section \<open>Events observable at the collaborators\<close>

type_synonym type_ref = string

datatype severity = Ignore | Info | Warning | Error

type_synonym settlement = "js_value + js_value"
  \<comment> \<open>\<open>Inl e\<close>: rejected with \<open>e\<close>; \<open>Inr v\<close>: resolved with \<open>v\<close>\<close>

datatype event =
    CreateInstance type_ref
  | SetLabel string
  | Dispose
  | JoinCreation
  | GateSettled settlement
  | Run js_value js_value
  | RunSettled settlement
  | Show severity js_value

section \<open>Promises\<close>

text \<open>
  A promise handed in by a collaborator (the readiness gate, the result of \<^verbatim>\<open>run\<close>) is
  already resolved, already rejected, or pending; a pending one settles later with the
  given settlement, or never.
\<close>

datatype ext_promise =
    Resolved js_value
  | Rejected js_value
  | Pending "settlement option"

text \<open>
  Modelled from the spec: \<^verbatim>\<open>TPromise\<close> (vs/base/common/winjs.base) is not under src/. The
  spec describes it as an asynchronous operation with success and error continuations and
  propagate-or-recover control flow. A promise of the model is either settled, or deferred:
  \<open>Deferred evs r\<close> is pending now; later the events \<open>evs\<close> happen, in this order, and then
  it settles with \<open>r\<close> (or stays pending for ever when \<open>r\<close> is \<open>None\<close>). A continuation
  attached to a settled promise runs at once, one attached to a deferred promise runs when
  that promise settles; a continuation that throws rejects the promise of the chain.
\<close>

datatype promise =
    Settled settlement
  | Deferred "event list" "settlement option"

datatype val = Value js_value | Promised promise

type_synonym completion = "js_value + val"
  \<comment> \<open>how a call ends: \<open>Inl e\<close> throws \<open>e\<close>, \<open>Inr v\<close> returns \<open>v\<close>\<close>

type_synonym callback = "js_value \<Rightarrow> event list \<times> completion"

definition TPromise_as :: "val \<Rightarrow> promise" where
  "TPromise_as v = (case v of Value x \<Rightarrow> Settled (Inr x) | Promised p \<Rightarrow> p)"

definition TPromise_wrapError :: "js_value \<Rightarrow> promise" where
  "TPromise_wrapError e = Settled (Inl e)"

definition adopt :: "completion \<Rightarrow> promise" where
  "adopt c = (case c of Inl e \<Rightarrow> Settled (Inl e) | Inr v \<Rightarrow> TPromise_as v)"

definition after :: "event list \<Rightarrow> promise \<Rightarrow> promise" where
  "after evs p =
     (case p of
        Settled r \<Rightarrow> Deferred evs (Some r)
      | Deferred evs' r \<Rightarrow> Deferred (evs @ evs') r)"

definition continue :: "settlement \<Rightarrow> callback option \<Rightarrow> callback option \<Rightarrow> event list \<times> promise" where
  "continue r onOk onErr =
     (case (case r of Inr v \<Rightarrow> map_option (\<lambda>f. f v) onOk
                    | Inl e \<Rightarrow> map_option (\<lambda>f. f e) onErr) of
        None \<Rightarrow> ([], Settled r)
      | Some (evs, c) \<Rightarrow> (evs, adopt c))"

definition TPromise_then :: "promise \<Rightarrow> callback option \<Rightarrow> callback option \<Rightarrow> event list \<times> promise" where
  "TPromise_then p onOk onErr =
     (case p of
        Settled r \<Rightarrow> continue r onOk onErr
      | Deferred evs None \<Rightarrow> ([], Deferred evs None)
      | Deferred evs (Some r) \<Rightarrow>
          (case continue r onOk onErr of (evs', q) \<Rightarrow> ([], after (evs @ evs') q)))"

text \<open>
  \<^verbatim>\<open>done\<close> ends a chain: it returns nothing, so what remains is the events that happen
  at once and those that happen later. The source gives it an error continuation that
  returns normally, so the chain never ends rejected.
\<close>

definition TPromise_done :: "promise \<Rightarrow> callback option \<Rightarrow> callback option \<Rightarrow> event list \<times> event list" where
  "TPromise_done p onOk onErr =
     (case TPromise_then p onOk onErr of
        (now, Settled r) \<Rightarrow> (now, [])
      | (now, Deferred evs r) \<Rightarrow> (now, evs))"

definition of_ext :: "(settlement \<Rightarrow> event) \<Rightarrow> ext_promise \<Rightarrow> promise" where
  "of_ext mark p =
     (case p of
        Resolved v \<Rightarrow> Settled (Inr v)
      | Rejected e \<Rightarrow> Settled (Inl e)
      | Pending None \<Rightarrow> Deferred [] None
      | Pending (Some r) \<Rightarrow> Deferred [mark r] (Some r))"

section \<open>Collaborators of the invoker\<close>

datatype run_result =
    RunReturns js_value
  | RunReturnsPromise ext_promise
  | RunThrows js_value

text \<open>
  An action instance (\<^verbatim>\<open>IAction\<close>): its label, its enabled flag, and what \<^verbatim>\<open>run\<close> does
  when called with a target and a context. \<^verbatim>\<open>dispose\<close> has no result; the call is
  recorded as the event \<open>Dispose\<close>.
\<close>

record action =
  label :: string
  enabled :: bool
  run :: "js_value \<Rightarrow> js_value \<Rightarrow> run_result"

record instantiation_service =
  createInstance :: "type_ref \<Rightarrow> js_value + action"
    \<comment> \<open>synchronous; \<open>Inl e\<close> when the creation throws \<open>e\<close>\<close>

record part_service =
  joinCreation :: ext_promise

record accessor =
  messageService :: "js_value + unit"
  instantiationService :: "js_value + instantiation_service"
  partService :: "js_value + part_service"
    \<comment> \<open>\<^verbatim>\<open>accessor.get\<close>: \<open>Inl e\<close> when the service cannot be resolved\<close>

text \<open>
  Modelled from the spec: the type \<^verbatim>\<open>SyncActionDescriptor\<close> (vs/platform/actions) is not
  under src/. Its fields are those of the spec's interface table: \<^verbatim>\<open>id\<close>,
  \<^verbatim>\<open>syncDescriptor\<close>, \<^verbatim>\<open>label?\<close>, \<^verbatim>\<open>keybindingContext?\<close>, \<^verbatim>\<open>keybindingWeight?\<close> and
  \<^verbatim>\<open>keybindings?: {primary, secondary?, win?, mac?, linux?}\<close>.
\<close>

type_synonym chord = nat
type_synonym context_expr = string

record platform_keys =
  platform_primary :: "chord option"
  platform_secondary :: "chord list option"

record keybindings_spec =
  kb_primary :: "chord option"
  kb_secondary :: "chord list option"
  kb_win :: "platform_keys option"
  kb_mac :: "platform_keys option"
  kb_linux :: "platform_keys option"

record descriptor =
  id' :: string
  syncDescriptor :: type_ref
  descriptor_label :: "string option"
  keybindingContext :: "context_expr option"
  keybindingWeight :: "int option"
  keybindings :: "keybindings_spec option"

section \<open>The invoker\<close>

datatype handler_outcome = HandlerReturned | HandlerThrew js_value

text \<open>
  One invocation of a command handler: the events up to the moment the handler gives
  control back to its caller, how it gives it back, and the events that happen afterwards
  (when a pending promise settles).
\<close>

record invocation =
  before_return :: "event list"
  outcome :: handler_outcome
  after_return :: "event list"

definition trace :: "invocation \<Rightarrow> event list" where
  "trace h = before_return h @ after_return h"

definition origin :: "js_value \<Rightarrow> js_value" where
  \<comment> \<open>\<^verbatim>\<open>args && args.from || 'keybinding'\<close>\<close>
  "origin args =
     js_or (if truthy args then property args ''from'' else args) (JStr ''keybinding'')"

definition run_context :: "js_value \<Rightarrow> js_value" where
  \<comment> \<open>\<^verbatim>\<open>{ from }\<close>\<close>
  "run_context from' = JObj [(''from'', from')]"

text \<open>
  What a call of \<^verbatim>\<open>run\<close> hands to its caller: a thrown error, a plain value, or a promise
  (whose later settlement is recorded as the event \<open>RunSettled\<close>).
\<close>

definition run_completion :: "run_result \<Rightarrow> completion" where
  "run_completion r =
     (case r of
        RunThrows err \<Rightarrow> Inl err
      | RunReturns v \<Rightarrow> Inr (Value v)
      | RunReturnsPromise q \<Rightarrow> Inr (Promised (of_ext RunSettled q)))"

text \<open>
  The functions of the source are translated first for an environment in which the members
  of the created instance (the label, \<^verbatim>\<open>enabled\<close>, \<^verbatim>\<open>dispose\<close>), the read of
  \<^verbatim>\<open>args.from\<close> and the call of \<^verbatim>\<open>joinCreation\<close> return normally; the next section
  translates them again without this assumption.

  The continuation of the gate: the body of the \<^verbatim>\<open>try\<close> and its \<^verbatim>\<open>catch\<close>.
\<close>

definition runAndDispose :: "action \<Rightarrow> js_value \<Rightarrow> event list \<times> completion" where
  "runAndDispose actionInstance from' =
     (case run_completion (run actionInstance JUndefined (run_context from')) of
        Inr result \<Rightarrow>
          (case TPromise_then (TPromise_as result)
                  (Some (\<lambda>_. ([Dispose], Inr (Value JUndefined))))
                  (Some (\<lambda>err. ([Dispose], Inr (Promised (TPromise_wrapError err))))) of
             (evs, p) \<Rightarrow> (Run JUndefined (run_context from') # evs, Inr (Promised p)))
      | Inl err \<Rightarrow>
          ([Run JUndefined (run_context from'), Dispose],
           Inr (Promised (TPromise_wrapError err))))"

definition triggerAndDisposeAction ::
    "instantiation_service \<Rightarrow> part_service \<Rightarrow> descriptor \<Rightarrow> js_value \<Rightarrow> event list \<times> completion" where
  "triggerAndDisposeAction instantitationService partService' descriptor args =
     (case createInstance instantitationService (syncDescriptor descriptor) of
        Inl err \<Rightarrow> ([CreateInstance (syncDescriptor descriptor)], Inl err)
      | Inr created \<Rightarrow>
          (let actionInstance =
                 created\<lparr>label := string_or (descriptor_label descriptor) (label created)\<rparr>;
               evs0 = [CreateInstance (syncDescriptor descriptor), SetLabel (label actionInstance)]
           in if \<not> enabled actionInstance
              then (evs0 @ [Dispose], Inr (Value JUndefined))
              else
                (let from' = origin args in
                 case TPromise_then (of_ext GateSettled (joinCreation partService'))
                        (Some (\<lambda>_. runAndDispose actionInstance from')) None of
                   (evs, p) \<Rightarrow> (evs0 @ JoinCreation # evs, Inr (Promised p)))))"

definition createCommandHandler :: "descriptor \<Rightarrow> accessor \<Rightarrow> js_value \<Rightarrow> invocation" where
  "createCommandHandler descriptor accessor' args =
     (case messageService accessor' of
        Inl err \<Rightarrow> \<lparr>before_return = [], outcome = HandlerThrew err, after_return = []\<rparr>
      | Inr messageService' \<Rightarrow>
     (case instantiationService accessor' of
        Inl err \<Rightarrow> \<lparr>before_return = [], outcome = HandlerThrew err, after_return = []\<rparr>
      | Inr instantiationService' \<Rightarrow>
     (case partService accessor' of
        Inl err \<Rightarrow> \<lparr>before_return = [], outcome = HandlerThrew err, after_return = []\<rparr>
      | Inr partService' \<Rightarrow>
     (case triggerAndDisposeAction instantiationService' partService' descriptor args of
        (evs, Inl err) \<Rightarrow> \<lparr>before_return = evs, outcome = HandlerThrew err, after_return = []\<rparr>
      | (evs, Inr v) \<Rightarrow>
          (case TPromise_done (TPromise_as v) None (Some (\<lambda>err. ([Show Error err], Inr (Value JUndefined)))) of
             (now, later) \<Rightarrow>
               \<lparr>before_return = evs @ now, outcome = HandlerReturned, after_return = later\<rparr>)))))"

section \<open>The invoker when members of the instance throw\<close>

text \<open>
  The definitions above take the members of the created instance, the read of
  \<^verbatim>\<open>args.from\<close> and the call of \<^verbatim>\<open>joinCreation\<close> to return normally. In the source the
  assignment of the label (line 99), the read of \<^verbatim>\<open>enabled\<close> (line 102), the call of
  \<^verbatim>\<open>dispose\<close> (lines 103, 114, 116, 120), the read of \<^verbatim>\<open>args.from\<close> (line 108) and the
  call of \<^verbatim>\<open>joinCreation\<close> (line 111) may each throw, and lines 98 to 111 are outside any
  \<^verbatim>\<open>try\<close>. A record says which of them throw, and what; the same three functions are
  translated again with every such throw as a branch. A throw inside a continuation of a
  promise rejects the promise of the chain; a throw outside leaves the function. The
  descriptor stays plain data and the notification channel returns normally.
\<close>

record throwing =
  throws_on_label :: "js_value option"
    \<comment> \<open>\<^verbatim>\<open>actionInstance.label = ...\<close> throws\<close>
  throws_on_enabled :: "js_value option"
    \<comment> \<open>the read of \<^verbatim>\<open>actionInstance.enabled\<close> throws\<close>
  throws_on_dispose :: "js_value option"
    \<comment> \<open>\<^verbatim>\<open>actionInstance.dispose()\<close> throws\<close>
  throws_on_from :: "js_value option"
    \<comment> \<open>the read of \<^verbatim>\<open>args.from\<close> throws\<close>
  throws_on_joinCreation :: "js_value option"
    \<comment> \<open>\<^verbatim>\<open>partService.joinCreation()\<close> throws instead of returning a promise\<close>

definition no_throw :: throwing where
  "no_throw =
     \<lparr>throws_on_label = None, throws_on_enabled = None, throws_on_dispose = None,
      throws_on_from = None, throws_on_joinCreation = None\<rparr>"

definition or_throw :: "js_value option \<Rightarrow> val \<Rightarrow> completion" where
  \<comment> \<open>a call that throws when told to, and returns the given value otherwise\<close>
  "or_throw th v = (case th of Some err \<Rightarrow> Inl err | None \<Rightarrow> Inr v)"

definition runAndDispose_with :: "throwing \<Rightarrow> action \<Rightarrow> js_value \<Rightarrow> event list \<times> completion" where
  "runAndDispose_with th actionInstance from' =
     (case run_completion (run actionInstance JUndefined (run_context from')) of
        Inr result \<Rightarrow>
          (case TPromise_then (TPromise_as result)
                  (Some (\<lambda>_. ([Dispose], or_throw (throws_on_dispose th) (Value JUndefined))))
                  (Some (\<lambda>err. ([Dispose],
                     or_throw (throws_on_dispose th) (Promised (TPromise_wrapError err))))) of
             (evs, p) \<Rightarrow> (Run JUndefined (run_context from') # evs, Inr (Promised p)))
      | Inl err \<Rightarrow>
          ([Run JUndefined (run_context from'), Dispose],
           or_throw (throws_on_dispose th) (Promised (TPromise_wrapError err))))"

definition triggerAndDisposeAction_with ::
    "throwing \<Rightarrow> instantiation_service \<Rightarrow> part_service \<Rightarrow> descriptor \<Rightarrow> js_value
       \<Rightarrow> event list \<times> completion" where
  "triggerAndDisposeAction_with th instantitationService partService' descriptor args =
     (case createInstance instantitationService (syncDescriptor descriptor) of
        Inl err \<Rightarrow> ([CreateInstance (syncDescriptor descriptor)], Inl err)
      | Inr created \<Rightarrow>
          (let actionInstance =
                 created\<lparr>label := string_or (descriptor_label descriptor) (label created)\<rparr>;
               evs0 = [CreateInstance (syncDescriptor descriptor), SetLabel (label actionInstance)]
           in case throws_on_label th of
                Some err \<Rightarrow> (evs0, Inl err)
              | None \<Rightarrow>
             (case throws_on_enabled th of
                Some err \<Rightarrow> (evs0, Inl err)
              | None \<Rightarrow>
                  if \<not> enabled actionInstance
                  then (evs0 @ [Dispose], or_throw (throws_on_dispose th) (Value JUndefined))
                  else
                   (case throws_on_from th of
                      Some err \<Rightarrow> (evs0, Inl err)
                    | None \<Rightarrow>
                    (let from' = origin args in
                     case throws_on_joinCreation th of
                       Some err \<Rightarrow> (evs0 @ [JoinCreation], Inl err)
                     | None \<Rightarrow>
                    (case TPromise_then (of_ext GateSettled (joinCreation partService'))
                            (Some (\<lambda>_. runAndDispose_with th actionInstance from')) None of
                       (evs, p) \<Rightarrow> (evs0 @ JoinCreation # evs, Inr (Promised p))))))))"

definition createCommandHandler_with ::
    "throwing \<Rightarrow> descriptor \<Rightarrow> accessor \<Rightarrow> js_value \<Rightarrow> invocation" where
  "createCommandHandler_with th descriptor accessor' args =
     (case messageService accessor' of
        Inl err \<Rightarrow> \<lparr>before_return = [], outcome = HandlerThrew err, after_return = []\<rparr>
      | Inr messageService' \<Rightarrow>
     (case instantiationService accessor' of
        Inl err \<Rightarrow> \<lparr>before_return = [], outcome = HandlerThrew err, after_return = []\<rparr>
      | Inr instantiationService' \<Rightarrow>
     (case partService accessor' of
        Inl err \<Rightarrow> \<lparr>before_return = [], outcome = HandlerThrew err, after_return = []\<rparr>
      | Inr partService' \<Rightarrow>
     (case triggerAndDisposeAction_with th instantiationService' partService' descriptor args of
        (evs, Inl err) \<Rightarrow> \<lparr>before_return = evs, outcome = HandlerThrew err, after_return = []\<rparr>
      | (evs, Inr v) \<Rightarrow>
          (case TPromise_done (TPromise_as v) None
                  (Some (\<lambda>err. ([Show Error err], Inr (Value JUndefined)))) of
             (now, later) \<Rightarrow>
               \<lparr>before_return = evs @ now, outcome = HandlerReturned, after_return = later\<rparr>)))))"

text \<open>
  What is thrown by the steps of the trigger-and-dispose operation that come before its
  promise chain, taken in the order of the source: the creation of the instance, the
  assignment of the label, the read of \<^verbatim>\<open>enabled\<close>, and then the call of \<^verbatim>\<open>dispose\<close>
  for a disabled instance, or the read of \<^verbatim>\<open>args.from\<close> and the call of
  \<^verbatim>\<open>joinCreation\<close> for an enabled one.
\<close>

definition thrown_before_chain ::
    "throwing \<Rightarrow> instantiation_service \<Rightarrow> descriptor \<Rightarrow> js_value option" where
  "thrown_before_chain th instantitationService descriptor =
     (case createInstance instantitationService (syncDescriptor descriptor) of
        Inl err \<Rightarrow> Some err
      | Inr created \<Rightarrow>
          if throws_on_label th \<noteq> None then throws_on_label th
          else if throws_on_enabled th \<noteq> None then throws_on_enabled th
          else if \<not> enabled created then throws_on_dispose th
          else if throws_on_from th \<noteq> None then throws_on_from th
          else throws_on_joinCreation th)"

section \<open>Registries\<close>

datatype menu_id = CommandPalette | OtherMenu string

record command_title =
  title_value :: string
  title_original :: string

record command_action =
  command_id :: string
  title :: command_title
  category :: "string option"

record menu_item =
  command :: command_action

record keybinding_rule =
  rule_id :: string
  weight :: int
  when' :: "context_expr option"
  primary :: "chord option"
  secondary :: "chord list option"
  win :: "platform_keys option"
  mac :: "platform_keys option"
  linux :: "platform_keys option"

type_synonym command_handler = "accessor \<Rightarrow> js_value \<Rightarrow> invocation"

text \<open>
  Modelled from the spec: \<^verbatim>\<open>CommandsRegistry\<close>, \<^verbatim>\<open>KeybindingsRegistry\<close>, \<^verbatim>\<open>MenuRegistry\<close> and
  \<^verbatim>\<open>combinedDisposable\<close> are not under src/. The spec gives their contracts:
  \<^verbatim>\<open>registerCommand(id, handler) -> Disposable\<close>, failing when a command with that identifier
  already exists; \<^verbatim>\<open>registerKeybindingRule(rule) -> void\<close> with no removal;
  \<^verbatim>\<open>addCommand(command) -> void\<close>; \<^verbatim>\<open>appendMenuItem(menu, {command}) -> Disposable\<close>; a
  combined disposable releases each of its parts. A menu entry carries the number of its
  registration, so that its disposable removes this entry and no other.
\<close>

record registries =
  commands :: "string \<rightharpoonup> command_handler"
  keybindingRules :: "keybinding_rule list"
  menuCommands :: "string \<rightharpoonup> command_action"
  menuItems :: "(nat \<times> menu_id \<times> menu_item) list"
  nextRegistration :: nat

datatype registry_error = DuplicateCommand string

datatype disposable =
    CommandRegistration string
  | MenuItemRegistration nat
  | Combined "disposable list"

definition registerCommand ::
    "registries \<Rightarrow> string \<Rightarrow> command_handler \<Rightarrow> registry_error + registries \<times> disposable" where
  "registerCommand rs i handler =
     (if commands rs i \<noteq> None then Inl (DuplicateCommand i)
      else Inr (rs\<lparr>commands := (commands rs)(i \<mapsto> handler)\<rparr>, CommandRegistration i))"

definition registerKeybindingRule :: "registries \<Rightarrow> keybinding_rule \<Rightarrow> registries" where
  "registerKeybindingRule rs rule = rs\<lparr>keybindingRules := keybindingRules rs @ [rule]\<rparr>"

definition addCommand :: "registries \<Rightarrow> command_action \<Rightarrow> registries" where
  "addCommand rs c = rs\<lparr>menuCommands := (menuCommands rs)(command_id c \<mapsto> c)\<rparr>"

definition appendMenuItem :: "registries \<Rightarrow> menu_id \<Rightarrow> menu_item \<Rightarrow> registries \<times> disposable" where
  "appendMenuItem rs m item =
     (rs\<lparr>menuItems := menuItems rs @ [(nextRegistration rs, m, item)],
         nextRegistration := Suc (nextRegistration rs)\<rparr>,
      MenuItemRegistration (nextRegistration rs))"

definition combinedDisposable :: "disposable list \<Rightarrow> disposable" where
  "combinedDisposable ds = Combined ds"

fun dispose :: "disposable \<Rightarrow> registries \<Rightarrow> registries" where
  "dispose (CommandRegistration i) rs = rs\<lparr>commands := (commands rs)(i := None)\<rparr>"
| "dispose (MenuItemRegistration k) rs =
     rs\<lparr>menuItems := filter (\<lambda>entry. fst entry \<noteq> k) (menuItems rs)\<rparr>"
| "dispose (Combined ds) rs = fold dispose ds rs"

section \<open>The registrar\<close>

text \<open>
  The first argument stands for \<^verbatim>\<open>KeybindingsRegistry.WEIGHT.workbenchContrib()\<close>, a
  constant of the keybinding registry that is not under src/.
\<close>

definition registerWorkbenchCommandFromAction ::
    "int \<Rightarrow> registries \<Rightarrow> descriptor \<Rightarrow> string \<Rightarrow> string option
       \<Rightarrow> registry_error + registries \<times> disposable" where
  "registerWorkbenchCommandFromAction workbenchContrib rs descriptor alias category' =
     (case registerCommand rs (id' descriptor) (createCommandHandler descriptor) of
        Inl err \<Rightarrow> Inl err
      | Inr (rs1, commandRegistration) \<Rightarrow>
          (let registrations = [commandRegistration];
               when = keybindingContext descriptor;
               weight' = (case keybindingWeight descriptor of
                            None \<Rightarrow> workbenchContrib | Some w \<Rightarrow> w);
               keybindings' = keybindings descriptor;
               rs2 = registerKeybindingRule rs1
                 \<lparr>rule_id = id' descriptor,
                  weight = weight',
                  when' = when,
                  primary = Option.bind keybindings' kb_primary,
                  secondary = Option.bind keybindings' kb_secondary,
                  win = Option.bind keybindings' kb_win,
                  mac = Option.bind keybindings' kb_mac,
                  linux = Option.bind keybindings' kb_linux\<rparr>
           in case descriptor_label descriptor of
                None \<Rightarrow> Inr (rs2, combinedDisposable registrations)
              | Some l \<Rightarrow>
                  if l = [] then Inr (rs2, combinedDisposable registrations)
                  else
                    (let command' =
                           \<lparr>command_id = id' descriptor,
                            title = \<lparr>title_value = l, title_original = alias\<rparr>,
                            category = category'\<rparr>;
                         rs3 = addCommand rs2 command'
                     in case appendMenuItem rs3 CommandPalette \<lparr>command = command'\<rparr> of
                          (rs4, menuRegistration) \<Rightarrow>
                            Inr (rs4, combinedDisposable (registrations @ [menuRegistration])))))"

definition registerWorkbenchAction ::
    "int \<Rightarrow> registries \<Rightarrow> descriptor \<Rightarrow> string \<Rightarrow> string option
       \<Rightarrow> registry_error + registries \<times> disposable" where
  "registerWorkbenchAction workbenchContrib rs descriptor alias category' =
     registerWorkbenchCommandFromAction workbenchContrib rs descriptor alias category'"

text \<open>The commands shown in the command palette, in the order of their registration.\<close>

definition palette :: "registries \<Rightarrow> command_action list" where
  "palette rs = map (\<lambda>entry. command (snd (snd entry)))
                    (filter (\<lambda>entry. fst (snd entry) = CommandPalette) (menuItems rs))"

text \<open>Registration numbers still to be handed out are not in use.\<close>

definition fresh_registrations :: "registries \<Rightarrow> bool" where
  "fresh_registrations rs = list_all (\<lambda>entry. fst entry < nextRegistration rs) (menuItems rs)"

text \<open>
  The keybinding rule in the words of the specification: the weight of the descriptor when
  present, the default weight otherwise; the chords of the keybinding specification when
  present, all absent otherwise.
\<close>

definition spec_keybinding_rule :: "int \<Rightarrow> descriptor \<Rightarrow> keybinding_rule" where
  "spec_keybinding_rule workbenchContrib d =
     (case keybindings d of
        Some k \<Rightarrow>
          \<lparr>rule_id = id' d,
           weight = (case keybindingWeight d of Some w \<Rightarrow> w | None \<Rightarrow> workbenchContrib),
           when' = keybindingContext d,
           primary = kb_primary k, secondary = kb_secondary k,
           win = kb_win k, mac = kb_mac k, linux = kb_linux k\<rparr>
      | None \<Rightarrow>
          \<lparr>rule_id = id' d,
           weight = (case keybindingWeight d of Some w \<Rightarrow> w | None \<Rightarrow> workbenchContrib),
           when' = keybindingContext d,
           primary = None, secondary = None, win = None, mac = None, linux = None\<rparr>)"

definition spec_command_action :: "descriptor \<Rightarrow> string \<Rightarrow> string \<Rightarrow> string option \<Rightarrow> command_action" where
  "spec_command_action d l alias category' =
     \<lparr>command_id = id' d, title = \<lparr>title_value = l, title_original = alias\<rparr>,
      category = category'\<rparr>"

section \<open>Observations on a trace\<close>

fun notifications :: "event list \<Rightarrow> (severity \<times> js_value) list" where
  "notifications [] = []"
| "notifications (Show s e # evs) = (s, e) # notifications evs"
| "notifications (ev # evs) = notifications evs"

fun run_calls :: "event list \<Rightarrow> (js_value \<times> js_value) list" where
  "run_calls [] = []"
| "run_calls (Run t c # evs) = (t, c) # run_calls evs"
| "run_calls (ev # evs) = run_calls evs"

fun is_Run :: "event \<Rightarrow> bool" where
  "is_Run (Run t c) = True"
| "is_Run ev = False"

definition before_run :: "event list \<Rightarrow> event list" where
  \<comment> \<open>the events before the first call of \<^verbatim>\<open>run\<close>\<close>
  "before_run evs = takeWhile (\<lambda>ev. \<not> is_Run ev) evs"

text \<open>The gate has resolved by the end of the events \<open>pre\<close>.\<close>

fun gate_open :: "ext_promise \<Rightarrow> event list \<Rightarrow> bool" where
  "gate_open (Resolved v) pre = True"
| "gate_open (Pending (Some (Inr v))) pre = (GateSettled (Inr v) \<in> set pre)"
| "gate_open g pre = False"

fun gate_resolves :: "ext_promise \<Rightarrow> bool" where
  "gate_resolves (Resolved v) = True"
| "gate_resolves (Pending (Some (Inr v))) = True"
| "gate_resolves g = False"


text \<open>The run operation comes to an end: it returns, throws, or its promise settles.\<close>

fun run_completes :: "run_result \<Rightarrow> bool" where
  "run_completes (RunReturnsPromise (Pending None)) = False"
| "run_completes r = True"

definition eventual :: "promise \<Rightarrow> settlement option" where
  "eventual p = (case p of Settled r \<Rightarrow> Some r | Deferred evs r \<Rightarrow> r)"

text \<open>The failure of a call, if any: what it throws, or what its promise rejects with.\<close>

definition failure_of :: "completion \<Rightarrow> js_value option" where
  "failure_of c =
     (case c of
        Inl e \<Rightarrow> Some e
      | Inr (Value v) \<Rightarrow> None
      | Inr (Promised p) \<Rightarrow> (case eventual p of Some (Inl e) \<Rightarrow> Some e | _ \<Rightarrow> None))"

section \<open>Example inputs\<close>

definition example_descriptor :: descriptor where
  "example_descriptor =
     \<lparr>id' = ''test.cmd'', syncDescriptor = ''TestAction'',
      descriptor_label = Some ''Test Command'', keybindingContext = None,
      keybindingWeight = Some 0,
      keybindings = Some \<lparr>kb_primary = Some 2089, kb_secondary = None, kb_win = None,
                          kb_mac = None, kb_linux = None\<rparr>\<rparr>"

definition hidden_descriptor :: descriptor where
  "hidden_descriptor =
     \<lparr>id' = ''hidden.cmd'', syncDescriptor = ''HiddenAction'',
      descriptor_label = None, keybindingContext = Some ''editorFocus'',
      keybindingWeight = None, keybindings = None\<rparr>"

definition example_action :: "bool \<Rightarrow> run_result \<Rightarrow> action" where
  "example_action en r = \<lparr>label = ''Default'', enabled = en, run = (\<lambda>target context. r)\<rparr>"

definition example_instantiation :: "js_value + action \<Rightarrow> instantiation_service" where
  "example_instantiation a = \<lparr>createInstance = (\<lambda>t. a)\<rparr>"

definition example_accessor :: "js_value + action \<Rightarrow> ext_promise \<Rightarrow> accessor" where
  "example_accessor a g =
     \<lparr>messageService = Inr (),
      instantiationService = Inr (example_instantiation a),
      partService = Inr \<lparr>joinCreation = g\<rparr>\<rparr>"

definition empty_registries :: registries where
  "empty_registries =
     \<lparr>commands = Map.empty, keybindingRules = [], menuCommands = Map.empty,
      menuItems = [], nextRegistration = 0\<rparr>"

definition example_command :: command_action where
  "example_command =
     \<lparr>command_id = ''test.cmd'',
      title = \<lparr>title_value = ''Test Command'', title_original = ''Test Command''\<rparr>,
      category = None\<rparr>"

definition example_rule :: keybinding_rule where
  "example_rule =
     \<lparr>rule_id = ''test.cmd'', weight = 0, when' = None, primary = Some 2089,
      secondary = None, win = None, mac = None, linux = None\<rparr>"

definition example_registered :: registries where
  "example_registered =
     \<lparr>commands = [''test.cmd'' \<mapsto> createCommandHandler example_descriptor],
      keybindingRules = [example_rule],
      menuCommands = [''test.cmd'' \<mapsto> example_command],
      menuItems = [(0, CommandPalette, \<lparr>command = example_command\<rparr>)],
      nextRegistration = 1\<rparr>"

definition example_handle :: disposable where
  "example_handle = Combined [CommandRegistration ''test.cmd'', MenuItemRegistration 0]"

definition hidden_rule :: keybinding_rule where
  "hidden_rule =
     \<lparr>rule_id = ''hidden.cmd'', weight = 200, when' = Some ''editorFocus'', primary = None,
      secondary = None, win = None, mac = None, linux = None\<rparr>"

definition hidden_registered :: registries where
  "hidden_registered =
     \<lparr>commands = [''hidden.cmd'' \<mapsto> createCommandHandler hidden_descriptor],
      keybindingRules = [hidden_rule],
      menuCommands = Map.empty,
      menuItems = [],
      nextRegistration = 0\<rparr>"

definition hidden_handle :: disposable where
  "hidden_handle = Combined [CommandRegistration ''hidden.cmd'']"

definition dispose_throws :: throwing where
  "dispose_throws = no_throw\<lparr>throws_on_dispose := Some (JStr ''dispose failed'')\<rparr>"

section \<open>Auxiliary facts\<close>

lemmas invoker_defs =
  createCommandHandler_def triggerAndDisposeAction_def runAndDispose_def run_completion_def
  TPromise_then_def TPromise_done_def TPromise_as_def TPromise_wrapError_def
  adopt_def after_def continue_def of_ext_def trace_def Let_def

lemmas origin_defs = origin_def run_context_def js_or_def

lemmas registrar_defs =
  registerWorkbenchAction_def registerWorkbenchCommandFromAction_def registerCommand_def
  registerKeybindingRule_def addCommand_def appendMenuItem_def combinedDisposable_def Let_def

lemmas example_defs =
  example_descriptor_def hidden_descriptor_def example_action_def
  example_instantiation_def example_accessor_def empty_registries_def
  example_command_def example_rule_def example_registered_def example_handle_def
  hidden_rule_def hidden_registered_def hidden_handle_def

lemmas world_splits =
  ext_promise.splits option.splits sum.splits run_result.splits if_splits

lemmas invoker_with_defs =
  createCommandHandler_with_def triggerAndDisposeAction_with_def runAndDispose_with_def
  or_throw_def run_completion_def
  TPromise_then_def TPromise_done_def TPromise_as_def TPromise_wrapError_def
  adopt_def after_def continue_def of_ext_def trace_def Let_def

lemma example_registration:
  "registerWorkbenchAction 200 empty_registries example_descriptor ''Test Command'' None
     = Inr (example_registered, example_handle)"
  by (simp add: registrar_defs example_defs)

lemma hidden_registration:
  "registerWorkbenchAction 200 empty_registries hidden_descriptor ''Hidden'' (Some ''View'')
     = Inr (hidden_registered, hidden_handle)"
  by (simp add: registrar_defs example_defs)

lemma example_accessor_services:
  "messageService (example_accessor a g) = Inr ()"
  "instantiationService (example_accessor a g) = Inr (example_instantiation a)"
  "partService (example_accessor a g) = Inr \<lparr>joinCreation = g\<rparr>"
  by (simp_all add: example_accessor_def)

lemma example_createInstance:
  "createInstance (example_instantiation a) t = a"
  by (simp add: example_instantiation_def)

text \<open>Disposing a registration number that is not in use leaves the menu entries alone.\<close>

lemma filter_fresh:
  "list_all (\<lambda>entry. fst entry < n) xs \<Longrightarrow> filter (\<lambda>entry. fst entry \<noteq> (n::nat)) xs = xs"
  by (induction xs) auto

text \<open>
  Registration fails exactly when the command table already holds the identifier, and a
  resolution failure of a service is thrown by the handler before anything else happens.
\<close>

lemma registration_succeeds_iff:
  "(\<exists>rs' h. registerWorkbenchAction workbenchContrib rs d alias cat = Inr (rs', h))
     \<longleftrightarrow> commands rs (id' d) = None"
  by (auto simp: registrar_defs split: option.splits)

lemma unresolved_service_thrown:
  "messageService acc = Inl e \<Longrightarrow>
     createCommandHandler d acc args
       = \<lparr>before_return = [], outcome = HandlerThrew e, after_return = []\<rparr>"
  by (simp add: createCommandHandler_def)

text \<open>
  In an environment where nothing of the instance throws, the functions of the last
  section are those of the section before.
\<close>

lemma no_throw_simps:
  "throws_on_label no_throw = None"
  "throws_on_enabled no_throw = None"
  "throws_on_dispose no_throw = None"
  "throws_on_from no_throw = None"
  "throws_on_joinCreation no_throw = None"
  "or_throw None v = Inr v"
  by (simp_all add: no_throw_def or_throw_def)

lemma runAndDispose_with_no_throw:
  "runAndDispose_with no_throw actionInstance from' = runAndDispose actionInstance from'"
  by (simp add: runAndDispose_with_def runAndDispose_def no_throw_simps
        cong: sum.case_cong)

lemma triggerAndDisposeAction_with_no_throw:
  "triggerAndDisposeAction_with no_throw instantitationService partService' descriptor args
     = triggerAndDisposeAction instantitationService partService' descriptor args"
  by (cases "createInstance instantitationService (syncDescriptor descriptor)")
    (simp_all add: triggerAndDisposeAction_with_def triggerAndDisposeAction_def
       runAndDispose_with_no_throw no_throw_simps Let_def)

lemma createCommandHandler_with_no_throw:
  "createCommandHandler_with no_throw descriptor accessor' args
     = createCommandHandler descriptor accessor' args"
  by (simp add: createCommandHandler_with_def createCommandHandler_def
        triggerAndDisposeAction_with_no_throw cong: sum.case_cong)

section \<open>The invoker: failures and disposal\<close>

text \<open>
  Claim C1, as the source has it: when the services resolve, the handler throws
  synchronously to its caller exactly when a step before the promise chain throws (the
  instance-creation facility, the assignment of the label, the read of \<^verbatim>\<open>enabled\<close>, the
  call of \<^verbatim>\<open>dispose\<close> for a disabled instance, the read of \<^verbatim>\<open>args.from\<close>, the call of
  \<^verbatim>\<open>joinCreation\<close>), and then nothing is shown. Otherwise the handler returns to its caller, and a failure of the
  trigger-and-dispose operation (a rejected gate, a run that throws or rejects, a
  \<^verbatim>\<open>dispose\<close> that throws in a continuation) is shown exactly once, at error severity;
  without a failure nothing is shown.
\<close>

theorem handler_throws_exactly_before_chain:
  assumes "messageService acc = Inr ms"
    and "instantiationService acc = Inr is"
    and "partService acc = Inr ps"
  shows "(case thrown_before_chain th is d of
            Some e \<Rightarrow>
              outcome (createCommandHandler_with th d acc args) = HandlerThrew e
              \<and> notifications (trace (createCommandHandler_with th d acc args)) = []
          | None \<Rightarrow>
              outcome (createCommandHandler_with th d acc args) = HandlerReturned
              \<and> notifications (trace (createCommandHandler_with th d acc args)) =
                  (case failure_of (snd (triggerAndDisposeAction_with th is ps d args)) of
                     Some e \<Rightarrow> [(Error, e)] | None \<Rightarrow> []))"
  using assms
  by (auto simp: invoker_with_defs thrown_before_chain_def failure_of_def eventual_def
        split: world_splits)

theorem handler_throws_exactly_before_chain_witness:
  "thrown_before_chain dispose_throws
      (example_instantiation (Inr (example_action False (RunReturns JUndefined))))
      hidden_descriptor = Some (JStr ''dispose failed'')
   \<and> outcome (createCommandHandler_with dispose_throws hidden_descriptor
        (example_accessor (Inr (example_action False (RunReturns JUndefined)))
           (Resolved (JBool True)))
        JUndefined) = HandlerThrew (JStr ''dispose failed'')
   \<and> thrown_before_chain no_throw
      (example_instantiation (Inr (example_action True (RunThrows (JStr ''failed'')))))
      example_descriptor = None
   \<and> failure_of (snd (triggerAndDisposeAction_with no_throw
        (example_instantiation (Inr (example_action True (RunThrows (JStr ''failed'')))))
        \<lparr>joinCreation = Resolved (JBool True)\<rparr> example_descriptor JUndefined))
       = Some (JStr ''failed'')
   \<and> outcome (createCommandHandler_with no_throw example_descriptor
        (example_accessor (Inr (example_action True (RunThrows (JStr ''failed''))))
           (Resolved (JBool True)))
        JUndefined) = HandlerReturned
   \<and> notifications (trace (createCommandHandler_with no_throw example_descriptor
        (example_accessor (Inr (example_action True (RunThrows (JStr ''failed''))))
           (Resolved (JBool True)))
        JUndefined)) = [(Error, JStr ''failed'')]
   \<and> thrown_before_chain dispose_throws
      (example_instantiation (Inr (example_action True (RunReturns JUndefined))))
      example_descriptor = None
   \<and> outcome (createCommandHandler_with dispose_throws example_descriptor
        (example_accessor (Inr (example_action True (RunReturns JUndefined)))
           (Pending (Some (Inr (JBool True)))))
        JUndefined) = HandlerReturned
   \<and> notifications (trace (createCommandHandler_with dispose_throws example_descriptor
        (example_accessor (Inr (example_action True (RunReturns JUndefined)))
           (Pending (Some (Inr (JBool True)))))
        JUndefined)) = [(Error, JStr ''dispose failed'')]"
proof -
  let ?off = "Inr (example_action False (RunReturns JUndefined)) :: js_value + action"
  let ?bad = "Inr (example_action True (RunThrows (JStr ''failed''))) :: js_value + action"
  let ?good = "Inr (example_action True (RunReturns JUndefined)) :: js_value + action"
  let ?g = "Resolved (JBool True)"
  let ?later = "Pending (Some (Inr (JBool True)))"
  have t1: "thrown_before_chain dispose_throws (example_instantiation ?off) hidden_descriptor
      = Some (JStr ''dispose failed'')"
    by (simp add: thrown_before_chain_def dispose_throws_def no_throw_def example_defs)
  have t2: "thrown_before_chain no_throw (example_instantiation ?bad) example_descriptor = None"
    by (simp add: thrown_before_chain_def no_throw_def example_defs)
  have t3: "thrown_before_chain dispose_throws (example_instantiation ?good) example_descriptor
      = None"
    by (simp add: thrown_before_chain_def dispose_throws_def no_throw_def example_defs)
  have f2: "failure_of (snd (triggerAndDisposeAction_with no_throw (example_instantiation ?bad)
        \<lparr>joinCreation = ?g\<rparr> example_descriptor JUndefined)) = Some (JStr ''failed'')"
    by (simp add: invoker_with_defs failure_of_def eventual_def no_throw_def example_defs)
  have f3: "failure_of (snd (triggerAndDisposeAction_with dispose_throws
        (example_instantiation ?good) \<lparr>joinCreation = ?later\<rparr> example_descriptor JUndefined))
      = Some (JStr ''dispose failed'')"
    by (simp add: invoker_with_defs failure_of_def eventual_def dispose_throws_def no_throw_def
          example_defs)
  show ?thesis
    using t1 t2 t3 f2 f3
      handler_throws_exactly_before_chain
        [OF example_accessor_services [of ?off ?g],
         of dispose_throws hidden_descriptor JUndefined]
      handler_throws_exactly_before_chain
        [OF example_accessor_services [of ?bad ?g],
         of no_throw example_descriptor JUndefined]
      handler_throws_exactly_before_chain
        [OF example_accessor_services [of ?good ?later],
         of dispose_throws example_descriptor JUndefined]
    by simp
qed

text \<open>
  Claim C1 as stated fails: a synchronous throw of the instance-creation facility leaves
  the handler as a synchronous exception, and nothing is shown.
\<close>

theorem handler_throws_when_creation_throws:
  "outcome (createCommandHandler example_descriptor
      (example_accessor (Inl (JStr ''cannot create'')) (Resolved (JBool True))) JUndefined)
     = HandlerThrew (JStr ''cannot create'')
   \<and> notifications (trace (createCommandHandler example_descriptor
      (example_accessor (Inl (JStr ''cannot create'')) (Resolved (JBool True))) JUndefined))
     = []"
  by (simp add: invoker_defs example_defs)

text \<open>
  Claim C2, as the source has it: a created instance is never disposed twice, and it is
  disposed exactly once when it is disabled, or when the gate resolves and the run
  operation comes to an end (it returns, throws, or its promise resolves or rejects).
\<close>

theorem instance_disposed_once_when_gate_resolves:
  assumes "messageService acc = Inr ms"
    and "instantiationService acc = Inr is"
    and "partService acc = Inr ps"
    and "createInstance is (syncDescriptor d) = Inr a"
  shows "count_list (trace (createCommandHandler d acc args)) Dispose \<le> 1
       \<and> (\<not> enabled a
            \<or> gate_resolves (joinCreation ps)
              \<and> run_completes (run a JUndefined (run_context (origin args)))
          \<longrightarrow> count_list (trace (createCommandHandler d acc args)) Dispose = 1)"
  using assms
  by (auto simp: invoker_defs split: world_splits)

theorem instance_disposed_once_when_gate_resolves_witness:
  "createInstance
      (example_instantiation
         (Inr (example_action True (RunReturnsPromise (Pending (Some (Inl (JStr ''failed''))))))))
      (syncDescriptor example_descriptor)
     = Inr (example_action True (RunReturnsPromise (Pending (Some (Inl (JStr ''failed''))))))
   \<and> gate_resolves (Pending (Some (Inr (JBool True))))
   \<and> run_completes (RunReturnsPromise (Pending (Some (Inl (JStr ''failed'')))))
   \<and> count_list (trace (createCommandHandler example_descriptor
        (example_accessor
           (Inr (example_action True (RunReturnsPromise (Pending (Some (Inl (JStr ''failed'')))))))
           (Pending (Some (Inr (JBool True)))))
        JUndefined)) Dispose = 1"
proof -
  let ?a = "example_action True (RunReturnsPromise (Pending (Some (Inl (JStr ''failed'')))))"
  let ?g = "Pending (Some (Inr (JBool True)))"
  have c: "createInstance (example_instantiation (Inr ?a)) (syncDescriptor example_descriptor)
      = Inr ?a"
    by (rule example_createInstance)
  show ?thesis
    using c
      instance_disposed_once_when_gate_resolves
        [OF example_accessor_services [of "Inr ?a" ?g] c, of JUndefined]
    by (simp add: example_defs)
qed

text \<open>
  Claim C2 as stated fails: when the gate rejects, the continuation that runs and disposes
  the instance is skipped, and the created instance is not disposed.
\<close>

theorem instance_not_disposed_when_gate_rejects:
  "createInstance (example_instantiation (Inr (example_action True (RunReturns JUndefined))))
      (syncDescriptor example_descriptor) = Inr (example_action True (RunReturns JUndefined))
   \<and> trace (createCommandHandler example_descriptor
        (example_accessor (Inr (example_action True (RunReturns JUndefined)))
           (Rejected (JStr ''startup failed'')))
        JUndefined)
     = [CreateInstance ''TestAction'', SetLabel ''Test Command'', JoinCreation,
        Show Error (JStr ''startup failed'')]
   \<and> count_list (trace (createCommandHandler example_descriptor
        (example_accessor (Inr (example_action True (RunReturns JUndefined)))
           (Rejected (JStr ''startup failed'')))
        JUndefined)) Dispose = 0"
  by (simp add: invoker_defs example_defs)





section \<open>The invoker: origin and the readiness gate\<close>

text \<open>
  Claim C8, as the source has it: every call of the run operation has the target
  \<^verbatim>\<open>undefined\<close> and a context object carrying exactly the origin, which is
  \<^verbatim>\<open>invocationArgs.from\<close> when the arguments and their \<^verbatim>\<open>from\<close> are truthy, and
  \<^verbatim>\<open>'keybinding'\<close> otherwise.
\<close>

theorem run_called_with_truthy_origin:
  assumes "(t, c) \<in> set (run_calls (trace (createCommandHandler d acc args)))"
  shows "t = JUndefined
       \<and> c = JObj [(''from'',
               if truthy args \<and> truthy (property args ''from'')
               then property args ''from'' else JStr ''keybinding'')]"
  using assms
  by (auto simp: invoker_defs origin_defs split: world_splits)

theorem run_called_with_truthy_origin_witness:
  "(JUndefined, JObj [(''from'', JStr ''menu'')])
       \<in> set (run_calls (trace (createCommandHandler example_descriptor
            (example_accessor (Inr (example_action True (RunReturns JUndefined)))
               (Resolved (JBool True)))
            (JObj [(''from'', JStr ''menu'')]))))
   \<and> truthy (JObj [(''from'', JStr ''menu'')])
   \<and> property (JObj [(''from'', JStr ''menu'')]) ''from'' = JStr ''menu''"
proof -
  let ?acc = "example_accessor (Inr (example_action True (RunReturns JUndefined)))
     (Resolved (JBool True))"
  let ?args = "JObj [(''from'', JStr ''menu'')]"
  have r: "(JUndefined, ?args)
      \<in> set (run_calls (trace (createCommandHandler example_descriptor ?acc ?args)))"
    by (simp add: invoker_defs origin_defs example_defs)
  show ?thesis
    using r run_called_with_truthy_origin [OF r] by simp
qed

text \<open>
  Claim C8 as stated fails: with the arguments \<^verbatim>\<open>{from: ''}\<close> the field \<^verbatim>\<open>from\<close> is
  present, and the run operation is called with the origin \<^verbatim>\<open>'keybinding'\<close>.
\<close>

theorem empty_from_replaced_by_default:
  "property (JObj [(''from'', JStr [])]) ''from'' = JStr []
   \<and> run_calls (trace (createCommandHandler example_descriptor
        (example_accessor (Inr (example_action True (RunReturns JUndefined)))
           (Resolved (JBool True)))
        (JObj [(''from'', JStr [])])))
     = [(JUndefined, JObj [(''from'', JStr ''keybinding'')])]"
  by (simp add: invoker_defs origin_defs example_defs)

text \<open>
  Claim C9: a call of the run operation comes after the call of \<^verbatim>\<open>joinCreation\<close> and
  after the gate has resolved; when the gate is pending at the invocation, the run
  operation is not called before the handler returns, only when the gate resolves later.
\<close>

theorem run_only_after_gate_resolved:
  assumes "partService acc = Inr ps"
    and "(t, c) \<in> set (run_calls (trace (createCommandHandler d acc args)))"
  shows "JoinCreation \<in> set (before_run (trace (createCommandHandler d acc args)))
       \<and> gate_open (joinCreation ps) (before_run (trace (createCommandHandler d acc args)))
       \<and> (\<forall>s. joinCreation ps = Pending s
              \<longrightarrow> run_calls (before_return (createCommandHandler d acc args)) = [])"
  using assms
  by (auto simp: invoker_defs before_run_def split: world_splits)

theorem run_only_after_gate_resolved_witness:
  "(JUndefined, JObj [(''from'', JStr ''keybinding'')])
       \<in> set (run_calls (trace (createCommandHandler example_descriptor
            (example_accessor (Inr (example_action True (RunReturns JUndefined)))
               (Pending (Some (Inr (JBool True)))))
            JUndefined)))
   \<and> before_run (trace (createCommandHandler example_descriptor
        (example_accessor (Inr (example_action True (RunReturns JUndefined)))
           (Pending (Some (Inr (JBool True)))))
        JUndefined))
      = [CreateInstance ''TestAction'', SetLabel ''Test Command'', JoinCreation,
         GateSettled (Inr (JBool True))]
   \<and> run_calls (before_return (createCommandHandler example_descriptor
        (example_accessor (Inr (example_action True (RunReturns JUndefined)))
           (Pending (Some (Inr (JBool True)))))
        JUndefined)) = []"
proof -
  let ?a = "Inr (example_action True (RunReturns JUndefined)) :: js_value + action"
  let ?g = "Pending (Some (Inr (JBool True)))"
  have r: "(JUndefined, JObj [(''from'', JStr ''keybinding'')])
      \<in> set (run_calls (trace
           (createCommandHandler example_descriptor (example_accessor ?a ?g) JUndefined)))"
    by (simp add: invoker_defs origin_defs example_defs)
  have b: "before_run (trace
        (createCommandHandler example_descriptor (example_accessor ?a ?g) JUndefined))
      = [CreateInstance ''TestAction'', SetLabel ''Test Command'', JoinCreation,
         GateSettled (Inr (JBool True))]"
    by (simp add: invoker_defs origin_defs before_run_def example_defs)
  show ?thesis
    using r b run_only_after_gate_resolved [OF example_accessor_services(3) [of ?a ?g] r]
    by simp
qed

text \<open>
  Claim C10: when the freshly created instance reports that it is not enabled,
  \<^verbatim>\<open>joinCreation\<close> is never called: the handler creates the instance, sets its label,
  disposes it and returns, nothing happens afterwards, and the invocation is the same
  whatever the part service is.
\<close>

theorem disabled_instance_never_joins_gate:
  assumes "messageService acc = Inr ms"
    and "instantiationService acc = Inr is"
    and "partService acc = Inr ps"
    and "createInstance is (syncDescriptor d) = Inr a"
    and "\<not> enabled a"
  shows "JoinCreation \<notin> set (trace (createCommandHandler d acc args))
       \<and> before_return (createCommandHandler d acc args) =
           [CreateInstance (syncDescriptor d),
            SetLabel (string_or (descriptor_label d) (label a)), Dispose]
       \<and> after_return (createCommandHandler d acc args) = []
       \<and> createCommandHandler d (acc\<lparr>partService := Inr ps'\<rparr>) args
           = createCommandHandler d acc args"
  using assms
  by (auto simp: invoker_defs split: world_splits)

theorem disabled_instance_never_joins_gate_witness:
  "\<not> enabled (example_action False (RunReturns JUndefined))
   \<and> JoinCreation \<notin> set (trace (createCommandHandler hidden_descriptor
        (example_accessor (Inr (example_action False (RunReturns JUndefined))) (Pending None))
        JUndefined))
   \<and> before_return (createCommandHandler hidden_descriptor
        (example_accessor (Inr (example_action False (RunReturns JUndefined))) (Pending None))
        JUndefined) = [CreateInstance ''HiddenAction'', SetLabel ''Default'', Dispose]
   \<and> after_return (createCommandHandler hidden_descriptor
        (example_accessor (Inr (example_action False (RunReturns JUndefined))) (Pending None))
        JUndefined) = []"
proof -
  let ?a = "example_action False (RunReturns JUndefined)"
  let ?g = "Pending None"
  have c: "createInstance (example_instantiation (Inr ?a)) (syncDescriptor hidden_descriptor)
      = Inr ?a"
    by (rule example_createInstance)
  have en: "\<not> enabled ?a"
    by (simp add: example_defs)
  show ?thesis
    using en
      disabled_instance_never_joins_gate
        [OF example_accessor_services [of "Inr ?a" ?g] c en, of JUndefined]
    by (simp add: example_defs)
qed

section \<open>The registrar: what a registration installs\<close>

text \<open>
  Claim C5: a registration that succeeds installs exactly one keybinding rule, the one the
  specification describes: keyed by the identifier of the descriptor, with the weight of
  the descriptor when present (zero included) and the default weight otherwise, the
  activation predicate of the descriptor, and the chords of its keybinding specification
  when present, all absent otherwise.
\<close>

theorem register_installs_keybinding_rule:
  assumes "registerWorkbenchAction workbenchContrib rs d alias cat = Inr (rs', h)"
  shows "keybindingRules rs' = keybindingRules rs @ [spec_keybinding_rule workbenchContrib d]"
  using assms
  by (auto simp: registrar_defs spec_keybinding_rule_def split: option.splits if_splits)

theorem register_installs_keybinding_rule_witness:
  "registerWorkbenchAction 200 empty_registries example_descriptor ''Test Command'' None
     = Inr (example_registered, example_handle)
   \<and> keybindingRules example_registered = keybindingRules empty_registries @ [example_rule]
   \<and> spec_keybinding_rule 200 example_descriptor = example_rule
   \<and> registerWorkbenchAction 200 empty_registries hidden_descriptor ''Hidden'' (Some ''View'')
     = Inr (hidden_registered, hidden_handle)
   \<and> keybindingRules hidden_registered = keybindingRules empty_registries @ [hidden_rule]
   \<and> spec_keybinding_rule 200 hidden_descriptor = hidden_rule"
  using example_registration hidden_registration
    register_installs_keybinding_rule [OF example_registration]
    register_installs_keybinding_rule [OF hidden_registration]
  by (simp add: spec_keybinding_rule_def example_defs)

text \<open>
  Claim C6: a registration that succeeds publishes the command title (the label as value,
  the alias as original, the category attached) and appends the command to the command
  palette exactly when the label of the descriptor is non-empty; with an empty or absent
  label the titles and the menu entries are unchanged. In both cases the command is
  registered under the identifier of the descriptor.
\<close>

theorem register_publishes_title_iff_label:
  assumes "registerWorkbenchAction workbenchContrib rs d alias cat = Inr (rs', h)"
  shows "(\<forall>l. descriptor_label d = Some l \<and> l \<noteq> [] \<longrightarrow>
            menuCommands rs' (id' d) = Some (spec_command_action d l alias cat)
          \<and> menuItems rs' = menuItems rs
              @ [(nextRegistration rs, CommandPalette,
                  \<lparr>command = spec_command_action d l alias cat\<rparr>)]
          \<and> palette rs' = palette rs @ [spec_command_action d l alias cat])
       \<and> (descriptor_label d = None \<or> descriptor_label d = Some [] \<longrightarrow>
            menuCommands rs' = menuCommands rs \<and> menuItems rs' = menuItems rs)
       \<and> commands rs' (id' d) = Some (createCommandHandler d)"
  using assms
  by (auto simp: registrar_defs spec_command_action_def palette_def
        split: option.splits if_splits)

theorem register_publishes_title_iff_label_witness:
  "registerWorkbenchAction 200 empty_registries example_descriptor ''Test Command'' None
     = Inr (example_registered, example_handle)
   \<and> descriptor_label example_descriptor = Some ''Test Command''
   \<and> menuCommands example_registered ''test.cmd'' = Some example_command
   \<and> palette example_registered = [example_command]
   \<and> commands example_registered ''test.cmd'' = Some (createCommandHandler example_descriptor)
   \<and> registerWorkbenchAction 200 empty_registries hidden_descriptor ''Hidden'' (Some ''View'')
     = Inr (hidden_registered, hidden_handle)
   \<and> descriptor_label hidden_descriptor = None
   \<and> menuCommands hidden_registered ''hidden.cmd'' = None
   \<and> menuItems hidden_registered = []
   \<and> commands hidden_registered ''hidden.cmd'' = Some (createCommandHandler hidden_descriptor)"
  using example_registration hidden_registration
    register_publishes_title_iff_label [OF example_registration]
    register_publishes_title_iff_label [OF hidden_registration]
  by (simp add: spec_command_action_def palette_def example_defs)

section \<open>The registrar: disposing the handle\<close>

text \<open>
  Claim C7, as the source has it: for a descriptor with a non-empty label, a registration
  that succeeds makes the command executable and visible in the palette; disposing the
  returned handle removes the palette entry, while the published command title and the
  keybinding rule persist.
\<close>

theorem handle_disposal_removes_palette_entry_only:
  assumes "descriptor_label d = Some l"
    and "l \<noteq> []"
    and "fresh_registrations rs"
    and "registerWorkbenchAction workbenchContrib rs d alias cat = Inr (rs', h)"
  shows "commands rs' (id' d) = Some (createCommandHandler d)
       \<and> palette rs' = palette rs @ [spec_command_action d l alias cat]
       \<and> palette (dispose h rs') = palette rs
       \<and> menuCommands (dispose h rs') (id' d) = Some (spec_command_action d l alias cat)
       \<and> keybindingRules (dispose h rs') = keybindingRules rs'
       \<and> keybindingRules rs' = keybindingRules rs @ [spec_keybinding_rule workbenchContrib d]"
  using assms
  by (auto simp: registrar_defs spec_command_action_def spec_keybinding_rule_def palette_def
        fresh_registrations_def filter_fresh split: option.splits if_splits)

theorem handle_disposal_removes_palette_entry_only_witness:
  "descriptor_label example_descriptor = Some ''Test Command''
   \<and> fresh_registrations empty_registries
   \<and> registerWorkbenchAction 200 empty_registries example_descriptor ''Test Command'' None
       = Inr (example_registered, example_handle)
   \<and> palette example_registered = [example_command]
   \<and> palette (dispose example_handle example_registered) = []
   \<and> menuCommands (dispose example_handle example_registered) ''test.cmd''
       = Some example_command
   \<and> keybindingRules (dispose example_handle example_registered) = [example_rule]"
proof -
  have l: "descriptor_label example_descriptor = Some ''Test Command''"
    by (simp add: example_defs)
  have n: "''Test Command'' \<noteq> []"
    by simp
  have f: "fresh_registrations empty_registries"
    by (simp add: fresh_registrations_def example_defs)
  show ?thesis
    using l f example_registration
      handle_disposal_removes_palette_entry_only [OF l n f example_registration]
    by (simp add: spec_command_action_def spec_keybinding_rule_def palette_def example_defs)
qed

text \<open>
  Claim C7 as stated fails: the result of \<^verbatim>\<open>addCommand\<close> is not among the registrations
  of the handle, so the published command title is still there after the disposal.
\<close>

theorem command_title_survives_disposal:
  "registerWorkbenchAction 200 empty_registries example_descriptor ''Test Command'' None
       = Inr (example_registered, example_handle)
   \<and> menuCommands (dispose example_handle example_registered) ''test.cmd''
       = Some example_command"
  by (simp add: registrar_defs example_defs)

end
